theory Spec2Isabelle
  imports Main
begin

section \<open>Requests, sessions and responses\<close>

text \<open>
  The views of \<open>auth_app/views.py\<close> and \<open>learning/views.py\<close> read a request (method, user,
  POST data, cookies, session) and return a response or raise. An exception is a value of
  type \<open>exn\<close>; a view that can raise returns a sum with the exception on the left.
\<close>

datatype http_method = GET | POST

datatype exn =
    PermissionDenied
  | Http404
  | AttributeError
  | ValueError
  | TypeError
  | DatabaseError
  | ReceiverError

text \<open>
  The targets of \<open>reverse\<close> and \<open>redirect\<close>: the route names of \<open>learning/urls.py\<close> together
  with their arguments, and the login page that the access decorators redirect to.
\<close>

datatype url = Index | Detail nat | CreateLesson nat | TrackingList | LoginPage

text \<open>
  The three literal bodies that the function views pass to \<open>HttpResponse\<close>. The source
  texts are Russian sentences; each constructor stands for one literal:
  \<open>AlreadyEnrolled\<close> for the text of line 200 (you are already enrolled in this course),
  \<open>CertificateSent\<close> for line 257 (the certificate was sent to your email),
  \<open>CourseNotCompleted\<close> for line 259 (you have not completed the whole course).
\<close>

datatype message = AlreadyEnrolled | CertificateSent | CourseNotCompleted

datatype response =
    HttpResponse message
  | HttpResponseRedirect url
  | RenderTemplate string

text \<open>A session value is a string or a list of course ids (the favourites).\<close>

datatype sval = SStr string | SList "nat list"

record session =
  s_data :: "string \<rightharpoonup> sval"
  s_expiry :: "int option"
  s_modified :: bool

text \<open>
  A user as a view sees it: the primary key and the permissions that \<open>has_perms\<close> grants.
  \<open>r_user = None\<close> is the anonymous user.
\<close>

record user =
  u_id :: nat
  u_perms :: "string list"

record request =
  r_method :: http_method
  r_user :: "user option"
  r_POST :: "string \<rightharpoonup> string"
  r_COOKIES :: "string \<rightharpoonup> string"
  r_session :: session

section \<open>Favourites in the session\<close>

text \<open>
  \<open>add_booking\<close> (lines 232-239): on POST, append the course id to the session's
  favourites list (a fresh list when the key is absent). Appending to a value that is not a
  list raises.
\<close>

definition add_booking :: "request \<Rightarrow> nat \<Rightarrow> exn + (response \<times> session)" where
  "add_booking req course_id =
     (if r_method req = POST then
        (case s_data (r_session req) ''favourites'' of
           None \<Rightarrow>
             Inr (HttpResponseRedirect Index,
                  (r_session req)\<lparr>s_data := (s_data (r_session req))(''favourites'' \<mapsto> SList [course_id]),
                                  s_modified := True\<rparr>)
         | Some (SList favourites) \<Rightarrow>
             Inr (HttpResponseRedirect Index,
                  (r_session req)\<lparr>s_data := (s_data (r_session req))
                                     (''favourites'' \<mapsto> SList (favourites @ [course_id])),
                                  s_modified := True\<rparr>)
         | Some (SStr _) \<Rightarrow> Inl AttributeError)
      else Inr (HttpResponseRedirect Index, r_session req))"

text \<open>
  \<open>remove_booking\<close> (lines 242-247): on POST, \<open>request.session.get('favourites')\<close> is
  \<open>None\<close> when the key is absent, and \<open>None.remove\<close> raises AttributeError;
  \<open>list.remove\<close> deletes the first occurrence and raises ValueError when there is none.
\<close>

definition remove_booking :: "request \<Rightarrow> nat \<Rightarrow> exn + (response \<times> session)" where
  "remove_booking req course_id =
     (if r_method req = POST then
        (case s_data (r_session req) ''favourites'' of
           None \<Rightarrow> Inl AttributeError
         | Some (SStr _) \<Rightarrow> Inl AttributeError
         | Some (SList favourites) \<Rightarrow>
             if course_id \<in> set favourites then
               Inr (HttpResponseRedirect Index,
                    (r_session req)\<lparr>s_data := (s_data (r_session req))
                                       (''favourites'' \<mapsto> SList (remove1 course_id favourites)),
                                    s_modified := True\<rparr>)
             else Inl ValueError)
      else Inr (HttpResponseRedirect Index, r_session req))"

section \<open>The pagination cookie\<close>






section \<open>Login with the remember-me toggle\<close>

text \<open>
  \<open>settings.REMEMBER_KEY\<close> and \<open>settings.REMEMBER_AGE\<close> are read from the project settings,
  which are a parameter here.
\<close>

record settings =
  REMEMBER_KEY :: string
  REMEMBER_AGE :: int

text \<open>
  The signals a view sends. Their receivers send e-mail; a receiver that raises makes
  \<open>Signal.send\<close> raise.
\<close>

datatype signal =
    AccountAccess
  | CourseEnroll nat nat
  | GetCertificate nat

text \<open>
  A database write or a signal receiver may raise. Which of these steps raise in a run is
  the parameter \<open>fails\<close> of the views below.
\<close>

datatype step =
    CourseSave
  | AuthorsAdd
  | CourseUpdate
  | CourseDelete
  | TrackingBulkCreate
  | SignalSend signal

text \<open>
  \<open>UserLoginView.form_valid\<close> (lines 18-29) runs for a valid login form. \<open>now\<close> is the text
  of \<open>datetime.now().isoformat()\<close>. Storing a value in the session and \<open>set_expiry\<close> both
  mark the session as modified. The view then sends \<open>account_access\<close>; when the receiver
  \<open>send_login_user_email\<close> raises, the view raises, before any login. Otherwise the session
  it has prepared and the signal it has sent are handed to the framework's own
  \<open>form_valid\<close>, which logs the user in and redirects: \<open>auth_login\<close> is that step, a
  parameter.
\<close>

definition remember_session :: "settings \<Rightarrow> string \<Rightarrow> request \<Rightarrow> session" where
  "remember_session conf now req =
     (let is_remember = r_POST req ''is_remember''
      in if is_remember = Some ''on'' then
           (r_session req)\<lparr>s_data := (s_data (r_session req))(REMEMBER_KEY conf \<mapsto> SStr now),
                           s_expiry := Some (REMEMBER_AGE conf),
                           s_modified := True\<rparr>
         else if is_remember = Some ''off'' then
           (r_session req)\<lparr>s_expiry := Some 0, s_modified := True\<rparr>
         else r_session req)"

definition UserLoginView_form_valid ::
  "(step \<Rightarrow> bool) \<Rightarrow> (session \<Rightarrow> signal list \<Rightarrow> 'r) \<Rightarrow> settings \<Rightarrow> string \<Rightarrow> request
     \<Rightarrow> exn + 'r" where
  "UserLoginView_form_valid fails auth_login conf now req =
     (let session = remember_session conf now req
      in if fails (SignalSend AccountAccess) then Inl ReceiverError
         else Inr (auth_login session [AccountAccess]))"

section \<open>The learning database, the cache and the signals\<close>

text \<open>
  Modelled from the spec: \<open>learning/models.py\<close> is not among the sources. The spec's data
  model gives a Course a title, a description, a start date and a many-to-many relation to
  author users; a Lesson belongs to one course; a Tracking is a record per (user, lesson)
  with the completion flag \<open>passed\<close>. Rows carry their primary key where a view reads it;
  the many-to-many relation is its table of (course id, user id) links.
\<close>

record course =
  c_id :: nat
  c_title :: string
  c_description :: string
  c_start_date :: string

record lesson =
  l_id :: nat
  l_course :: nat
  l_name :: string

record tracking =
  t_lesson :: nat
  t_user :: nat
  t_passed :: bool

record db =
  courses :: "course list"
  course_authors :: "(nat \<times> nat) list"
  lessons :: "lesson list"
  trackings :: "tracking list"

text \<open>
  The cache keys the views use: \<open>KCourses\<close> is the key \<open>'courses'\<close>, and
  \<open>KCourseLessons n\<close> the key \<open>course_n_lessons\<close> of the course with id \<open>n\<close>.
\<close>

datatype cache_key = KCourses | KCourseLessons nat

datatype cached = CachedCourses "course list" | CachedLessons "lesson list"

text \<open>
  Besides the database, the cache and the signals sent, the state holds the class
  attribute \<open>MainView.queryset\<close> (line 19): a lazy query, \<open>None\<close> until it is first
  evaluated, and from then on the rows it read at that moment.
\<close>

record world =
  db :: db
  cache :: "cache_key \<rightharpoonup> cached"
  sent :: "signal list"
  main_queryset :: "course list option"

type_synonym result = "(exn + response) \<times> world"

definition send :: "(step \<Rightarrow> bool) \<Rightarrow> signal \<Rightarrow> world \<Rightarrow> exn + world" where
  "send fails sig w =
     (if fails (SignalSend sig) then Inl ReceiverError else Inr (w\<lparr>sent := sent w @ [sig]\<rparr>))"

text \<open>
  \<open>transaction.atomic\<close>: when the wrapped code raises, the database is rolled back to its
  state at entry and the exception propagates. The cache and the e-mails already sent are
  outside the transaction.
\<close>

definition atomic :: "(world \<Rightarrow> result) \<Rightarrow> world \<Rightarrow> result" where
  "atomic f w =
     (case f w of
        (Inl e, w') \<Rightarrow> (Inl e, w'\<lparr>db := db w\<rparr>)
      | (Inr r, w') \<Rightarrow> (Inr r, w'))"

text \<open>
  \<open>login_required\<close> redirects the anonymous user to the login page;
  \<open>permission_required(perm, raise_exception=True)\<close> raises PermissionDenied for a user
  without the permission.
\<close>

definition login_required :: "(request \<Rightarrow> world \<Rightarrow> result) \<Rightarrow> request \<Rightarrow> world \<Rightarrow> result" where
  "login_required view req w =
     (case r_user req of
        None \<Rightarrow> (Inr (HttpResponseRedirect LoginPage), w)
      | Some u \<Rightarrow> view req w)"

definition has_perm :: "request \<Rightarrow> string \<Rightarrow> bool" where
  "has_perm req perm = (case r_user req of None \<Rightarrow> False | Some u \<Rightarrow> perm \<in> set (u_perms u))"

definition permission_required ::
  "string \<Rightarrow> (request \<Rightarrow> world \<Rightarrow> result) \<Rightarrow> request \<Rightarrow> world \<Rightarrow> result" where
  "permission_required perm view req w =
     (if has_perm req perm then view req w else (Inl PermissionDenied, w))"

section \<open>Enrollment and the certificate\<close>

text \<open>
  \<open>Tracking.objects.filter(user=..., lesson__course=course_id)\<close>: the tracking rows of the
  user, joined with the lesson each one refers to, where that lesson is of the course.
\<close>

definition user_course_trackings :: "nat \<Rightarrow> nat \<Rightarrow> db \<Rightarrow> tracking list" where
  "user_course_trackings uid course_id d =
     [t. t \<leftarrow> trackings d, t_user t = uid,
         l \<leftarrow> lessons d, l_id l = t_lesson t \<and> l_course l = course_id]"

definition course_lessons :: "nat \<Rightarrow> db \<Rightarrow> lesson list" where
  "course_lessons course_id d = filter (\<lambda>l. l_course l = course_id) (lessons d)"

text \<open>
  The body of \<open>enroll\<close> (lines 197-209). A request without a user cannot be used in the
  filter: that raises.
\<close>

definition new_trackings :: "nat \<Rightarrow> nat \<Rightarrow> db \<Rightarrow> tracking list" where
  "new_trackings uid course_id d =
     map (\<lambda>l. \<lparr>t_lesson = l_id l, t_user = uid, t_passed = False\<rparr>) (course_lessons course_id d)"

definition enroll_body :: "(step \<Rightarrow> bool) \<Rightarrow> nat \<Rightarrow> request \<Rightarrow> world \<Rightarrow> result" where
  "enroll_body fails course_id req w =
     (case r_user req of
        None \<Rightarrow> (Inl TypeError, w)
      | Some u \<Rightarrow>
          let is_existed = (user_course_trackings (u_id u) course_id (db w) \<noteq> [])
          in if is_existed then (Inr (HttpResponse AlreadyEnrolled), w)
             else
               let records = new_trackings (u_id u) course_id (db w)
               in if fails TrackingBulkCreate then (Inl DatabaseError, w)
                  else
                    let w1 = w\<lparr>db := (db w)\<lparr>trackings := trackings (db w) @ records\<rparr>\<rparr>
                    in (case send fails (CourseEnroll (u_id u) course_id) w1 of
                          Inl e \<Rightarrow> (Inl e, w1)
                        | Inr w2 \<Rightarrow> (Inr (HttpResponseRedirect TrackingList), w2)))"

definition enroll :: "(step \<Rightarrow> bool) \<Rightarrow> request \<Rightarrow> nat \<Rightarrow> world \<Rightarrow> result" where
  "enroll fails req course_id =
     atomic (login_required
               (permission_required ''learning.add_tracking'' (enroll_body fails course_id)) req)"

text \<open>
  \<open>get_certificate_view\<close> (lines 250-259). \<open>Count\<close> is the number of joined rows;
  \<open>Sum('passed')\<close> is the number of rows with \<open>passed\<close> set, and \<open>None\<close> over no rows
  (the sum of a boolean column as SQLite and MySQL compute it, the flag stored as 0 or 1).
  The comparison of an integer with \<open>None\<close> is false.
\<close>

definition aggregate_count :: "tracking list \<Rightarrow> nat" where
  "aggregate_count rows = length rows"

definition aggregate_sum_passed :: "tracking list \<Rightarrow> nat option" where
  "aggregate_sum_passed rows =
     (if rows = [] then None else Some (length (filter t_passed rows)))"

definition get_certificate_body :: "(step \<Rightarrow> bool) \<Rightarrow> nat \<Rightarrow> request \<Rightarrow> world \<Rightarrow> result" where
  "get_certificate_body fails course_id req w =
     (case r_user req of
        None \<Rightarrow> (Inl TypeError, w)
      | Some u \<Rightarrow>
          let rows = user_course_trackings (u_id u) course_id (db w);
              total_passed = aggregate_count rows;
              fact_passed = aggregate_sum_passed rows
          in if Some total_passed = fact_passed then
               (case send fails (GetCertificate (u_id u)) w of
                  Inl e \<Rightarrow> (Inl e, w)
                | Inr w1 \<Rightarrow> (Inr (HttpResponse CertificateSent), w1))
             else (Inr (HttpResponse CourseNotCompleted), w))"

definition get_certificate_view :: "(step \<Rightarrow> bool) \<Rightarrow> request \<Rightarrow> nat \<Rightarrow> world \<Rightarrow> result" where
  "get_certificate_view fails req course_id =
     login_required (get_certificate_body fails course_id) req"

section \<open>Course views\<close>

text \<open>
  Modelled from the spec: \<open>learning/forms.py\<close> is not among the sources. A valid
  \<open>CourseForm\<close> carries the fields the spec gives a Course; an invalid form is \<open>None\<close>.
\<close>

record course_form =
  f_title :: string
  f_description :: string
  f_start_date :: string

definition course_of_form :: "nat \<Rightarrow> course_form \<Rightarrow> course" where
  "course_of_form n form =
     \<lparr>c_id = n, c_title = f_title form, c_description = f_description form,
      c_start_date = f_start_date form\<rparr>"

text \<open>\<open>course.authors.add(user)\<close> inserts the link unless it is there already.\<close>

definition authors_add :: "nat \<Rightarrow> nat \<Rightarrow> (nat \<times> nat) list \<Rightarrow> (nat \<times> nat) list" where
  "authors_add course_id uid links =
     (if (course_id, uid) \<in> set links then links else links @ [(course_id, uid)])"

text \<open>
  \<open>LoginRequiredMixin\<close> and \<open>PermissionRequiredMixin\<close> in front of a class-based view: the
  anonymous user is redirected to the login page, a user without the permission gets
  PermissionDenied.
\<close>

definition access_mixins ::
  "string \<Rightarrow> (request \<Rightarrow> world \<Rightarrow> result) \<Rightarrow> request \<Rightarrow> world \<Rightarrow> result" where
  "access_mixins perm view req w =
     (case r_user req of
        None \<Rightarrow> (Inr (HttpResponseRedirect LoginPage), w)
      | Some u \<Rightarrow> if has_perm req perm then view req w else (Inl PermissionDenied, w))"

text \<open>
  \<open>CourseCreateView.form_valid\<close> (lines 88-94), inside \<open>transaction.atomic\<close>. The primary
  key of the new row is chosen by the database: it is the parameter \<open>new_id\<close>.
\<close>

definition CourseCreateView_form_valid ::
  "(step \<Rightarrow> bool) \<Rightarrow> nat \<Rightarrow> course_form \<Rightarrow> request \<Rightarrow> world \<Rightarrow> result" where
  "CourseCreateView_form_valid fails new_id form req =
     atomic (\<lambda>w.
       let course = course_of_form new_id form
       in if fails CourseSave then (Inl DatabaseError, w)
          else
            let w1 = w\<lparr>db := (db w)\<lparr>courses := courses (db w) @ [course]\<rparr>\<rparr>
            in (case r_user req of
                  None \<Rightarrow> (Inl TypeError, w1)
                | Some u \<Rightarrow>
                    if fails AuthorsAdd then (Inl DatabaseError, w1)
                    else
                      let w2 = w1\<lparr>db := (db w1)\<lparr>course_authors :=
                                   authors_add (c_id course) (u_id u) (course_authors (db w1))\<rparr>\<rparr>;
                          w3 = w2\<lparr>cache := (cache w2)(KCourses := None)\<rparr>
                      in (Inr (HttpResponseRedirect (CreateLesson (c_id course))), w3)))"

definition CourseCreateView_post ::
  "(step \<Rightarrow> bool) \<Rightarrow> nat \<Rightarrow> course_form option \<Rightarrow> request \<Rightarrow> world \<Rightarrow> result" where
  "CourseCreateView_post fails new_id form =
     access_mixins ''learning.add_course''
       (\<lambda>req w. case form of
                   None \<Rightarrow> (Inr (RenderTemplate ''create.html''), w)
                 | Some f \<Rightarrow> CourseCreateView_form_valid fails new_id f req w)"

text \<open>
  \<open>get_object\<close> on the queryset \<open>Course.objects.filter(id=course_id)\<close> of the update and
  delete views (lines 105-106, 123-124).
\<close>

definition get_object :: "nat \<Rightarrow> db \<Rightarrow> exn + course" where
  "get_object course_id d =
     (case filter (\<lambda>c. c_id c = course_id) (courses d) of
        [] \<Rightarrow> Inl Http404
      | c # _ \<Rightarrow> Inr c)"

text \<open>
  \<open>CourseUpdateView\<close> (lines 97-109) defines the queryset and the success url only; the
  POST is the framework's: find the object, validate the form, save it (one UPDATE of the
  row with the object's key), redirect to the detail page.
\<close>

definition update_course :: "course_form \<Rightarrow> course \<Rightarrow> course" where
  "update_course form c =
     c\<lparr>c_title := f_title form, c_description := f_description form,
       c_start_date := f_start_date form\<rparr>"

definition CourseUpdateView_post ::
  "(step \<Rightarrow> bool) \<Rightarrow> nat \<Rightarrow> course_form option \<Rightarrow> request \<Rightarrow> world \<Rightarrow> result" where
  "CourseUpdateView_post fails course_id form =
     access_mixins ''learning.change_course''
       (\<lambda>req w.
          case get_object course_id (db w) of
            Inl e \<Rightarrow> (Inl e, w)
          | Inr obj \<Rightarrow>
              (case form of
                 None \<Rightarrow> (Inr (RenderTemplate ''create.html''), w)
               | Some f \<Rightarrow>
                   if fails CourseUpdate then (Inl DatabaseError, w)
                   else
                     (Inr (HttpResponseRedirect (Detail (c_id obj))),
                      w\<lparr>db := (db w)\<lparr>courses :=
                           map (\<lambda>c. if c_id c = c_id obj then update_course f c else c)
                               (courses (db w))\<rparr>\<rparr>)))"

text \<open>
  \<open>CourseDeleteView\<close> (lines 112-127): \<open>form_valid\<close> deletes the two cache keys and then
  the object. The rows that refer to the deleted course are treated as the models'
  \<open>on_delete\<close> rules say; those rules are not among the sources and are the parameter
  \<open>on_delete\<close>.
\<close>

definition delete_course :: "(nat \<Rightarrow> db \<Rightarrow> db) \<Rightarrow> nat \<Rightarrow> db \<Rightarrow> db" where
  "delete_course on_delete course_id d =
     on_delete course_id
       (d\<lparr>courses := filter (\<lambda>c. c_id c \<noteq> course_id) (courses d),
          course_authors := filter (\<lambda>(c, u). c \<noteq> course_id) (course_authors d)\<rparr>)"

definition CourseDeleteView_post ::
  "(step \<Rightarrow> bool) \<Rightarrow> (nat \<Rightarrow> db \<Rightarrow> db) \<Rightarrow> nat \<Rightarrow> request \<Rightarrow> world \<Rightarrow> result" where
  "CourseDeleteView_post fails on_delete course_id =
     access_mixins ''learning.delete_course''
       (\<lambda>req w.
          case get_object course_id (db w) of
            Inl e \<Rightarrow> (Inl e, w)
          | Inr obj \<Rightarrow>
              let w1 = w\<lparr>cache := (cache w)(KCourses := None, KCourseLessons course_id := None)\<rparr>
              in if fails CourseDelete then (Inl DatabaseError, w1)
                 else (Inr (HttpResponseRedirect Index),
                       w1\<lparr>db := delete_course on_delete (c_id obj) (db w1)\<rparr>))"

text \<open>
  The course list of \<open>MainView.get_queryset\<close> (lines 25-29), for a request without the
  search parameters: the cached value when the key is present; otherwise the class
  attribute \<open>MainView.queryset\<close>, which \<open>cache.set\<close> evaluates when it stores it (the rows
  of the course table if it was never evaluated before, the rows it already holds
  otherwise).
\<close>

definition MainView_get_queryset :: "world \<Rightarrow> cached \<times> world" where
  "MainView_get_queryset w =
     (case cache w KCourses of
        Some queryset \<Rightarrow> (queryset, w)
      | None \<Rightarrow>
          let rows = (case main_queryset w of None \<Rightarrow> courses (db w) | Some rs \<Rightarrow> rs)
          in (CachedCourses rows,
              w\<lparr>cache := (cache w)(KCourses \<mapsto> CachedCourses rows),
                main_queryset := Some rows\<rparr>))"

section \<open>The default group of a new user\<close>

text \<open>
  The framework's groups and the links between users and groups (user id, group id).
\<close>

record group =
  g_id :: nat
  g_name :: string

record auth_db =
  groups :: "group list"
  user_groups :: "(nat \<times> nat) list"

text \<open>The name of the default group, a Cyrillic word of six letters, in UTF-8.\<close>

definition pupil_group_name :: string where
  "pupil_group_name =
     [CHR 0xD0, CHR 0xA3, CHR 0xD1, CHR 0x87, CHR 0xD0, CHR 0xB5,
      CHR 0xD0, CHR 0xBD, CHR 0xD0, CHR 0xB8, CHR 0xD0, CHR 0xBA]"

text \<open>
  \<open>instance.groups.set(objs)\<close>: the links of the user to groups outside \<open>objs\<close> are removed,
  and a link is added for each group of \<open>objs\<close> the user is not yet in.
\<close>

definition groups_set :: "nat \<Rightarrow> nat list \<Rightarrow> (nat \<times> nat) list \<Rightarrow> (nat \<times> nat) list" where
  "groups_set uid gids links =
     filter (\<lambda>(u, g). u \<noteq> uid \<or> g \<in> set gids) links
     @ map (Pair uid) (filter (\<lambda>g. (uid, g) \<notin> set links) (remdups gids))"

text \<open>\<open>grant_pupil_rights\<close> (signals.py, lines 28-32), the receiver of \<open>post_save\<close>.\<close>

definition grant_pupil_rights :: "nat \<Rightarrow> bool \<Rightarrow> auth_db \<Rightarrow> auth_db" where
  "grant_pupil_rights instance created a =
     (if created then
        let pupil = map g_id (filter (\<lambda>g. g_name g = pupil_group_name) (groups a))
        in a\<lparr>user_groups := groups_set instance pupil (user_groups a)\<rparr>
      else a)"

definition groups_of :: "nat \<Rightarrow> auth_db \<Rightarrow> nat set" where
  "groups_of uid a = set (map snd (filter (\<lambda>(u, g). u = uid) (user_groups a)))"

section \<open>Example states\<close>

text \<open>
  A small installation used to run the views: a pupil (user 1) who may enroll, a former
  pupil (user 2) whose permissions were withdrawn, and two authors (users 5 and 6) with the
  course permissions. Course 1 has the lessons 10 and 11 and the single author 5; course 2
  has lesson 20 and the author 6. User 2 has passed lesson 10 but not lesson 11; user 3 has
  passed both lessons of course 1.
\<close>

definition pupil :: user where
  "pupil = \<lparr>u_id = 1, u_perms = [''learning.add_tracking'']\<rparr>"

definition former_pupil :: user where
  "former_pupil = \<lparr>u_id = 2, u_perms = []\<rparr>"

definition graduate :: user where
  "graduate = \<lparr>u_id = 3, u_perms = [''learning.add_tracking'']\<rparr>"

definition author_perms :: "string list" where
  "author_perms = [''learning.add_course'', ''learning.change_course'', ''learning.delete_course'']"

definition first_author :: user where
  "first_author = \<lparr>u_id = 5, u_perms = author_perms\<rparr>"

definition second_author :: user where
  "second_author = \<lparr>u_id = 6, u_perms = author_perms\<rparr>"

definition empty_session :: session where
  "empty_session = \<lparr>s_data = Map.empty, s_expiry = None, s_modified = False\<rparr>"

definition request_of :: "http_method \<Rightarrow> user option \<Rightarrow> request" where
  "request_of m u =
     \<lparr>r_method = m, r_user = u, r_POST = Map.empty, r_COOKIES = Map.empty,
      r_session = empty_session\<rparr>"

definition example_courses :: "course list" where
  "example_courses =
     [\<lparr>c_id = 1, c_title = ''Python'', c_description = ''Basics'', c_start_date = ''2024-01-10''\<rparr>,
      \<lparr>c_id = 2, c_title = ''SQL'', c_description = ''Queries'', c_start_date = ''2024-02-01''\<rparr>]"

definition example_db :: db where
  "example_db =
     \<lparr>courses = example_courses,
      course_authors = [(1, 5), (2, 6)],
      lessons = [\<lparr>l_id = 10, l_course = 1, l_name = ''Intro''\<rparr>,
                 \<lparr>l_id = 11, l_course = 1, l_name = ''Loops''\<rparr>,
                 \<lparr>l_id = 20, l_course = 2, l_name = ''Select''\<rparr>],
      trackings = [\<lparr>t_lesson = 10, t_user = 2, t_passed = True\<rparr>,
                   \<lparr>t_lesson = 11, t_user = 2, t_passed = False\<rparr>,
                   \<lparr>t_lesson = 10, t_user = 3, t_passed = True\<rparr>,
                   \<lparr>t_lesson = 11, t_user = 3, t_passed = True\<rparr>]\<rparr>"

definition example_world :: world where
  "example_world = \<lparr>db = example_db, cache = Map.empty, sent = [], main_queryset = None\<rparr>"

text \<open>The same installation after the index page has cached the course list.\<close>

definition cached_world :: world where
  "cached_world =
     example_world\<lparr>cache := [KCourses \<mapsto> CachedCourses example_courses],
                   main_queryset := Some example_courses\<rparr>"

definition no_failure :: "step \<Rightarrow> bool" where
  "no_failure s = False"

definition new_title :: course_form where
  "new_title = \<lparr>f_title = ''Python 3'', f_description = ''Basics'', f_start_date = ''2024-01-10''\<rparr>"

definition example_settings :: settings where
  "example_settings = \<lparr>REMEMBER_KEY = ''remember'', REMEMBER_AGE = 2592000\<rparr>"

definition example_auth :: auth_db where
  "example_auth =
     \<lparr>groups = [\<lparr>g_id = 1, g_name = pupil_group_name\<rparr>, \<lparr>g_id = 2, g_name = ''Author''\<rparr>],
      user_groups = [(5, 2), (7, 2)]\<rparr>"

section \<open>Removing a favourite\<close>

text \<open>
  C9. A POST to \<open>remove_booking\<close> raises when the session has no favourites list
  (AttributeError) or when the list does not contain the course id (ValueError); it
  redirects, with the first occurrence of the course id removed from the list, exactly when
  the course id is in the session's favourites list.
\<close>

theorem remove_booking_partial:
  assumes "r_method req = POST"
  shows "((s_data (r_session req) ''favourites'' = None
             \<or> (\<exists>xs. s_data (r_session req) ''favourites'' = Some (SList xs) \<and> course_id \<notin> set xs))
          \<longrightarrow> (\<exists>e. remove_booking req course_id = Inl e))
       \<and> ((\<exists>r. remove_booking req course_id = Inr r)
          \<longleftrightarrow> (\<exists>xs. s_data (r_session req) ''favourites'' = Some (SList xs) \<and> course_id \<in> set xs))
       \<and> (\<forall>xs. s_data (r_session req) ''favourites'' = Some (SList xs) \<and> course_id \<in> set xs
          \<longrightarrow> remove_booking req course_id =
                Inr (HttpResponseRedirect Index,
                     (r_session req)\<lparr>s_data := (s_data (r_session req))
                                        (''favourites'' \<mapsto> SList (remove1 course_id xs)),
                                     s_modified := True\<rparr>))"
  using assms
  by (auto simp: remove_booking_def split: option.splits sval.splits)

theorem remove_booking_partial_witness:
  "remove_booking
     \<lparr>r_method = POST, r_user = None, r_POST = Map.empty, r_COOKIES = Map.empty,
      r_session = \<lparr>s_data = [''favourites'' \<mapsto> SList [3, 7, 3]], s_expiry = None, s_modified = False\<rparr>\<rparr> 3
   = Inr (HttpResponseRedirect Index,
          \<lparr>s_data = [''favourites'' \<mapsto> SList [7, 3]], s_expiry = None, s_modified = True\<rparr>)
   \<and> (\<exists>e. remove_booking
        \<lparr>r_method = POST, r_user = None, r_POST = Map.empty, r_COOKIES = Map.empty,
         r_session = \<lparr>s_data = Map.empty, s_expiry = None, s_modified = False\<rparr>\<rparr> 3 = Inl e)
   \<and> (\<exists>e. remove_booking
        \<lparr>r_method = POST, r_user = None, r_POST = Map.empty, r_COOKIES = Map.empty,
         r_session = \<lparr>s_data = [''favourites'' \<mapsto> SList [7]], s_expiry = None, s_modified = False\<rparr>\<rparr> 3 = Inl e)"
  using remove_booking_partial [of
     "\<lparr>r_method = POST, r_user = None, r_POST = Map.empty, r_COOKIES = Map.empty,
      r_session = \<lparr>s_data = [''favourites'' \<mapsto> SList [3, 7, 3]], s_expiry = None, s_modified = False\<rparr>\<rparr>" 3]
    remove_booking_partial [of
     "\<lparr>r_method = POST, r_user = None, r_POST = Map.empty, r_COOKIES = Map.empty,
      r_session = \<lparr>s_data = Map.empty, s_expiry = None, s_modified = False\<rparr>\<rparr>" 3]
    remove_booking_partial [of
     "\<lparr>r_method = POST, r_user = None, r_POST = Map.empty, r_COOKIES = Map.empty,
      r_session = \<lparr>s_data = [''favourites'' \<mapsto> SList [7]], s_expiry = None, s_modified = False\<rparr>\<rparr>" 3]
  by simp

section \<open>Enrollment and certificate: properties\<close>

lemma set_user_course_trackings:
  "t \<in> set (user_course_trackings uid cid d) \<longleftrightarrow>
     t \<in> set (trackings d) \<and> t_user t = uid \<and>
     (\<exists>l\<in>set (lessons d). l_id l = t_lesson t \<and> l_course l = cid)"
  by (auto simp: user_course_trackings_def)

lemma length_filter_eq_length: "length (filter P xs) = length xs \<longleftrightarrow> (\<forall>x\<in>set xs. P x)"
  by (metis filter_id_conv length_filter_le length_filter_less nat_less_le filter_True)

lemma count_eq_sum_passed:
  "Some (aggregate_count rows) = aggregate_sum_passed rows \<longleftrightarrow>
     rows \<noteq> [] \<and> (\<forall>t\<in>set rows. t_passed t)"
  using length_filter_eq_length [of t_passed rows]
  by (auto simp: aggregate_count_def aggregate_sum_passed_def)

lemma get_certificate_view_cases:
  assumes "r_user req = Some u"
  shows "get_certificate_view fails req cid w =
     (let rows = user_course_trackings (u_id u) cid (db w) in
      if rows \<noteq> [] \<and> (\<forall>t\<in>set rows. t_passed t) then
        (if fails (SignalSend (GetCertificate (u_id u))) then (Inl ReceiverError, w)
         else (Inr (HttpResponse CertificateSent), w\<lparr>sent := sent w @ [GetCertificate (u_id u)]\<rparr>))
      else (Inr (HttpResponse CourseNotCompleted), w))"
  using assms
  by (simp add: get_certificate_view_def login_required_def get_certificate_body_def
      count_eq_sum_passed send_def Let_def)

lemma get_certificate_view_not_enrolled:
  assumes "r_user req = Some u" and "user_course_trackings (u_id u) cid (db w) = []"
  shows "get_certificate_view fails req cid w = (Inr (HttpResponse CourseNotCompleted), w)"
  using assms(2) by (simp add: get_certificate_view_cases [OF assms(1)])

text \<open>
  C1. The certificate view answers with the certificate message, or sends the certificate
  signal, only for a logged-in user all of whose tracking rows for lessons of the course
  are passed; then it does both. When some tracking row of the user for a lesson of the
  course is not passed, it answers that the course is not completed and changes nothing:
  no signal is sent.
\<close>

theorem certificate_only_when_all_passed:
  assumes "get_certificate_view fails req course_id w = (res, w')"
  shows "(res = Inr (HttpResponse CertificateSent) \<or> sent w' \<noteq> sent w \<longrightarrow>
           (\<exists>u. r_user req = Some u \<and> res = Inr (HttpResponse CertificateSent)
               \<and> sent w' = sent w @ [GetCertificate (u_id u)]
               \<and> (\<forall>t\<in>set (trackings (db w)).
                     t_user t = u_id u
                     \<and> (\<exists>l\<in>set (lessons (db w)). l_id l = t_lesson t \<and> l_course l = course_id)
                     \<longrightarrow> t_passed t)))
       \<and> (\<forall>u t. r_user req = Some u \<and> t \<in> set (trackings (db w)) \<and> t_user t = u_id u
               \<and> (\<exists>l\<in>set (lessons (db w)). l_id l = t_lesson t \<and> l_course l = course_id)
               \<and> \<not> t_passed t
            \<longrightarrow> res = Inr (HttpResponse CourseNotCompleted) \<and> w' = w)"
proof (cases "r_user req")
  case None
  with assms show ?thesis
    by (auto simp: get_certificate_view_def login_required_def)
next
  case (Some u)
  let ?rows = "user_course_trackings (u_id u) course_id (db w)"
  have rows: "(\<forall>t\<in>set ?rows. t_passed t) \<longleftrightarrow>
     (\<forall>t\<in>set (trackings (db w)). t_user t = u_id u
          \<and> (\<exists>l\<in>set (lessons (db w)). l_id l = t_lesson t \<and> l_course l = course_id)
          \<longrightarrow> t_passed t)"
    unfolding Ball_def Bex_def set_user_course_trackings by blast
  show ?thesis
  proof (cases "?rows \<noteq> [] \<and> (\<forall>t\<in>set ?rows. t_passed t)")
    case True
    with assms rows show ?thesis
      unfolding get_certificate_view_cases [OF Some] Let_def
      by (cases "fails (SignalSend (GetCertificate (u_id u)))") (auto simp: Some)
  next
    case False
    with assms have "res = Inr (HttpResponse CourseNotCompleted)" "w' = w"
      unfolding get_certificate_view_cases [OF Some] Let_def by auto
    then show ?thesis by simp
  qed
qed

lemma atomic_rollback: "atomic f w = (Inl e, w') \<Longrightarrow> db w' = db w"
  by (auto simp: atomic_def split: prod.splits sum.splits)

lemma filter_key_distinct:
  "distinct (map f xs) \<Longrightarrow> x \<in> set xs \<Longrightarrow> filter (\<lambda>y. f y = f x) xs = [x]"
proof (induction xs)
  case Nil
  then show ?case by simp
next
  case (Cons a xs)
  show ?case
  proof (cases "a = x")
    case True
    with Cons.prems have "f x \<notin> f ` set xs" by simp
    then have "\<forall>y\<in>set xs. f y \<noteq> f x" by (metis imageI)
    then have "filter (\<lambda>y. f y = f x) xs = []" by (simp add: filter_empty_conv)
    with True show ?thesis by simp
  next
    case False
    with Cons.prems have "x \<in> set xs" "f a \<noteq> f x" by auto
    with Cons show ?thesis by simp
  qed
qed

lemma enroll_cases:
  assumes "r_user req = Some u" and "''learning.add_tracking'' \<in> set (u_perms u)"
  shows "enroll fails req cid w =
     (if user_course_trackings (u_id u) cid (db w) \<noteq> [] then (Inr (HttpResponse AlreadyEnrolled), w)
      else if fails TrackingBulkCreate then (Inl DatabaseError, w)
      else if fails (SignalSend (CourseEnroll (u_id u) cid)) then (Inl ReceiverError, w)
      else (Inr (HttpResponseRedirect TrackingList),
            w\<lparr>db := (db w)\<lparr>trackings := trackings (db w) @ new_trackings (u_id u) cid (db w)\<rparr>,
              sent := sent w @ [CourseEnroll (u_id u) cid]\<rparr>))"
  using assms
  by (simp add: enroll_def atomic_def login_required_def permission_required_def has_perm_def
      enroll_body_def send_def Let_def)

lemma enroll_denied:
  assumes "r_user req = Some u" and "''learning.add_tracking'' \<notin> set (u_perms u)"
  shows "enroll fails req cid w = (Inl PermissionDenied, w)"
  using assms
  by (simp add: enroll_def atomic_def login_required_def permission_required_def has_perm_def)

lemma enroll_anonymous:
  assumes "r_user req = None"
  shows "enroll fails req cid w = (Inr (HttpResponseRedirect LoginPage), w)"
  using assms by (simp add: enroll_def atomic_def login_required_def)

lemma old_rows_empty:
  assumes "user_course_trackings uid cid d = []" and "l \<in> set (lessons d)" and "l_course l = cid"
  shows "filter (\<lambda>t. t_user t = uid \<and> t_lesson t = l_id l) (trackings d) = []"
proof -
  have "\<forall>t\<in>set (trackings d). \<not> (t_user t = uid \<and> t_lesson t = l_id l)"
  proof
    fix t assume "t \<in> set (trackings d)"
    show "\<not> (t_user t = uid \<and> t_lesson t = l_id l)"
    proof
      assume "t_user t = uid \<and> t_lesson t = l_id l"
      with \<open>t \<in> set (trackings d)\<close> assms(2,3)
      have "t \<in> set (user_course_trackings uid cid d)"
        unfolding set_user_course_trackings by auto
      with assms(1) show False by simp
    qed
  qed
  then show ?thesis by (simp add: filter_empty_conv)
qed

lemma new_rows_one:
  assumes "distinct (map l_id (lessons d))" and "l \<in> set (lessons d)" and "l_course l = cid"
  shows "filter (\<lambda>t. t_user t = uid \<and> t_lesson t = l_id l) (new_trackings uid cid d)
         = [\<lparr>t_lesson = l_id l, t_user = uid, t_passed = False\<rparr>]"
proof -
  have "filter (\<lambda>t. t_user t = uid \<and> t_lesson t = l_id l) (new_trackings uid cid d)
        = map (\<lambda>l. \<lparr>t_lesson = l_id l, t_user = uid, t_passed = False\<rparr>)
            (filter (\<lambda>l'. l_course l' = cid) (filter (\<lambda>l'. l_id l' = l_id l) (lessons d)))"
    by (simp add: new_trackings_def course_lessons_def filter_map comp_def conj_commute)
  also have "filter (\<lambda>l'. l_id l' = l_id l) (lessons d) = [l]"
    using assms(1,2) by (rule filter_key_distinct)
  finally show ?thesis using assms(3) by simp
qed

text \<open>
  C2. Given that lesson ids are unique (the primary key), a successful enrollment (the
  redirect to the tracking page) appends to the tracking table one row per lesson of the
  course, in one bulk insert, each for the requesting user and with \<open>passed\<close> false; in
  the new table the user has exactly that one row for each lesson of the course. The
  view runs in one transaction: whenever it raises, the database is as it was.
\<close>

theorem enroll_creates_tracking_rows:
  assumes "distinct (map l_id (lessons (db w)))"
  shows "(\<forall>e w'. enroll fails req course_id w = (Inl e, w') \<longrightarrow> db w' = db w)
       \<and> (\<forall>w'. enroll fails req course_id w = (Inr (HttpResponseRedirect TrackingList), w') \<longrightarrow>
            (\<exists>u. r_user req = Some u
               \<and> trackings (db w') = trackings (db w) @
                    map (\<lambda>l. \<lparr>t_lesson = l_id l, t_user = u_id u, t_passed = False\<rparr>)
                        (filter (\<lambda>l. l_course l = course_id) (lessons (db w)))
               \<and> (\<forall>l\<in>set (lessons (db w)). l_course l = course_id \<longrightarrow>
                     filter (\<lambda>t. t_user t = u_id u \<and> t_lesson t = l_id l) (trackings (db w'))
                     = [\<lparr>t_lesson = l_id l, t_user = u_id u, t_passed = False\<rparr>])
               \<and> lessons (db w') = lessons (db w)
               \<and> courses (db w') = courses (db w)
               \<and> course_authors (db w') = course_authors (db w)))"
proof (intro conjI allI impI)
  fix e w' assume "enroll fails req course_id w = (Inl e, w')"
  then show "db w' = db w" unfolding enroll_def by (rule atomic_rollback)
next
  fix w' assume ok: "enroll fails req course_id w = (Inr (HttpResponseRedirect TrackingList), w')"
  then obtain u where u: "r_user req = Some u"
    by (cases "r_user req") (auto simp: enroll_anonymous)
  from ok u have perm: "''learning.add_tracking'' \<in> set (u_perms u)"
    by (cases "''learning.add_tracking'' \<in> set (u_perms u)") (auto simp: enroll_denied)
  from ok have none: "user_course_trackings (u_id u) course_id (db w) = []"
    and w': "w' = w\<lparr>db := (db w)\<lparr>trackings := trackings (db w) @ new_trackings (u_id u) course_id (db w)\<rparr>,
              sent := sent w @ [CourseEnroll (u_id u) course_id]\<rparr>"
    unfolding enroll_cases [OF u perm] by (auto split: if_splits)
  have one: "filter (\<lambda>t. t_user t = u_id u \<and> t_lesson t = l_id l) (trackings (db w'))
             = [\<lparr>t_lesson = l_id l, t_user = u_id u, t_passed = False\<rparr>]"
    if "l \<in> set (lessons (db w))" and "l_course l = course_id" for l
    using old_rows_empty [OF none that] new_rows_one [OF assms that]
    by (simp add: w')
  show "\<exists>u. r_user req = Some u
               \<and> trackings (db w') = trackings (db w) @
                    map (\<lambda>l. \<lparr>t_lesson = l_id l, t_user = u_id u, t_passed = False\<rparr>)
                        (filter (\<lambda>l. l_course l = course_id) (lessons (db w)))
               \<and> (\<forall>l\<in>set (lessons (db w)). l_course l = course_id \<longrightarrow>
                     filter (\<lambda>t. t_user t = u_id u \<and> t_lesson t = l_id l) (trackings (db w'))
                     = [\<lparr>t_lesson = l_id l, t_user = u_id u, t_passed = False\<rparr>])
               \<and> lessons (db w') = lessons (db w)
               \<and> courses (db w') = courses (db w)
               \<and> course_authors (db w') = course_authors (db w)"
    using u one by (auto simp: w' new_trackings_def course_lessons_def)
qed

text \<open>
  C3, as amended. For a user who already has a tracking row for some lesson of the course,
  \<open>enroll\<close> leaves the whole state unchanged, so it creates no tracking row. It answers
  with the already-enrolled message when the user holds the permission
  \<open>learning.add_tracking\<close>; without that permission the view raises PermissionDenied.
\<close>

theorem enroll_already_enrolled:
  assumes "r_user req = Some u"
      and "t \<in> set (trackings (db w))" and "t_user t = u_id u"
      and "l \<in> set (lessons (db w))" and "l_id l = t_lesson t" and "l_course l = course_id"
  shows "snd (enroll fails req course_id w) = w
       \<and> (''learning.add_tracking'' \<in> set (u_perms u) \<longrightarrow>
            enroll fails req course_id w = (Inr (HttpResponse AlreadyEnrolled), w))
       \<and> (''learning.add_tracking'' \<notin> set (u_perms u) \<longrightarrow>
            enroll fails req course_id w = (Inl PermissionDenied, w))"
proof -
  from assms(2-6) have "t \<in> set (user_course_trackings (u_id u) course_id (db w))"
    unfolding set_user_course_trackings by auto
  then have "user_course_trackings (u_id u) course_id (db w) \<noteq> []" by auto
  then show ?thesis
    using enroll_cases [OF assms(1), of fails course_id w] enroll_denied [OF assms(1), of fails course_id w]
    by (cases "''learning.add_tracking'' \<in> set (u_perms u)") auto
qed

section \<open>The views on the example states\<close>

lemmas example_defs =
  pupil_def former_pupil_def graduate_def author_perms_def first_author_def second_author_def
  empty_session_def request_of_def example_courses_def example_db_def example_world_def
  cached_world_def no_failure_def new_title_def

text \<open>
  The graduate has passed both lessons of course 1 and gets the certificate; the former
  pupil has not passed lesson 11 and does not.
\<close>

theorem certificate_only_when_all_passed_witness:
  "get_certificate_view no_failure (request_of GET (Some graduate)) 1 example_world
     = (Inr (HttpResponse CertificateSent), example_world\<lparr>sent := [GetCertificate 3]\<rparr>)
   \<and> get_certificate_view no_failure (request_of GET (Some former_pupil)) 1 example_world
     = (Inr (HttpResponse CourseNotCompleted), example_world)
   \<and> r_user (request_of GET (Some graduate)) = Some graduate"
proof -
  have run: "get_certificate_view no_failure (request_of GET (Some graduate)) 1 example_world
     = (Inr (HttpResponse CertificateSent), example_world\<lparr>sent := [GetCertificate 3]\<rparr>)"
    by (simp add: get_certificate_view_def login_required_def get_certificate_body_def
        user_course_trackings_def aggregate_count_def aggregate_sum_passed_def send_def
        example_defs)
  have run2: "get_certificate_view no_failure (request_of GET (Some former_pupil)) 1 example_world
     = (Inr (HttpResponse CourseNotCompleted), example_world)"
    by (simp add: get_certificate_view_def login_required_def get_certificate_body_def
        user_course_trackings_def aggregate_count_def aggregate_sum_passed_def send_def
        example_defs)
  from certificate_only_when_all_passed [OF run] certificate_only_when_all_passed [OF run2]
  show ?thesis using run run2 by (simp add: request_of_def)
qed

text \<open>
  C3 as stated fails for the former pupil: that user has a tracking row for lesson 10 of
  course 1 and no permission to add trackings, and \<open>enroll\<close> raises PermissionDenied
  instead of answering that the user is enrolled already.
\<close>

theorem enroll_already_enrolled_counterexample:
  "\<lparr>t_lesson = 10, t_user = 2, t_passed = True\<rparr> \<in> set (trackings (db example_world))
   \<and> \<lparr>l_id = 10, l_course = 1, l_name = ''Intro''\<rparr> \<in> set (lessons (db example_world))
   \<and> r_user (request_of POST (Some former_pupil)) = Some former_pupil
   \<and> u_id former_pupil = 2
   \<and> enroll no_failure (request_of POST (Some former_pupil)) 1 example_world
       = (Inl PermissionDenied, example_world)
   \<and> fst (enroll no_failure (request_of POST (Some former_pupil)) 1 example_world)
       \<noteq> Inr (HttpResponse AlreadyEnrolled)"
  by (simp add: enroll_def atomic_def login_required_def permission_required_def has_perm_def
      example_defs)

theorem enroll_already_enrolled_witness:
  "enroll no_failure (request_of POST (Some graduate)) 1 example_world
     = (Inr (HttpResponse AlreadyEnrolled), example_world)
   \<and> enroll no_failure (request_of POST (Some former_pupil)) 1 example_world
     = (Inl PermissionDenied, example_world)"
proof -
  have t: "\<lparr>t_lesson = 10, t_user = 3, t_passed = True\<rparr> \<in> set (trackings (db example_world))"
    and t2: "\<lparr>t_lesson = 10, t_user = 2, t_passed = True\<rparr> \<in> set (trackings (db example_world))"
    and l: "\<lparr>l_id = 10, l_course = 1, l_name = ''Intro''\<rparr> \<in> set (lessons (db example_world))"
    by (simp_all add: example_defs)
  have u: "r_user (request_of POST (Some graduate)) = Some graduate"
    and u2: "r_user (request_of POST (Some former_pupil)) = Some former_pupil"
    by (simp_all add: request_of_def)
  from enroll_already_enrolled [OF u t _ l, of 1 no_failure]
       enroll_already_enrolled [OF u2 t2 _ l, of 1 no_failure]
  show ?thesis by (simp add: graduate_def former_pupil_def)
qed

lemmas enroll_defs =
  enroll_def atomic_def login_required_def permission_required_def has_perm_def
  enroll_body_def user_course_trackings_def new_trackings_def course_lessons_def send_def

text \<open>
  The pupil enrolls in course 1 and gets one row for each of its two lessons; when the
  receiver of the enrollment signal raises, the rows are rolled back.
\<close>

theorem enroll_creates_tracking_rows_witness:
  "distinct (map l_id (lessons (db example_world)))
   \<and> enroll no_failure (request_of POST (Some pupil)) 1 example_world
     = (Inr (HttpResponseRedirect TrackingList),
        example_world\<lparr>db := example_db\<lparr>trackings := trackings example_db @
                             [\<lparr>t_lesson = 10, t_user = 1, t_passed = False\<rparr>,
                              \<lparr>t_lesson = 11, t_user = 1, t_passed = False\<rparr>]\<rparr>,
                      sent := [CourseEnroll 1 1]\<rparr>)
   \<and> enroll (\<lambda>s. s = SignalSend (CourseEnroll 1 1)) (request_of POST (Some pupil)) 1 example_world
     = (Inl ReceiverError, example_world)
   \<and> db (snd (enroll (\<lambda>s. s = SignalSend (CourseEnroll 1 1)) (request_of POST (Some pupil)) 1
                example_world)) = db example_world"
proof -
  have keys: "distinct (map l_id (lessons (db example_world)))"
    by (simp add: example_defs)
  have run: "enroll no_failure (request_of POST (Some pupil)) 1 example_world
     = (Inr (HttpResponseRedirect TrackingList),
        example_world\<lparr>db := example_db\<lparr>trackings := trackings example_db @
                             [\<lparr>t_lesson = 10, t_user = 1, t_passed = False\<rparr>,
                              \<lparr>t_lesson = 11, t_user = 1, t_passed = False\<rparr>]\<rparr>,
                      sent := [CourseEnroll 1 1]\<rparr>)"
    by (simp add: enroll_defs example_defs)
  have fail: "enroll (\<lambda>s. s = SignalSend (CourseEnroll 1 1)) (request_of POST (Some pupil)) 1 example_world
     = (Inl ReceiverError, example_world)"
    by (simp add: enroll_defs example_defs)
  have raised: "enroll (\<lambda>s. s = SignalSend (CourseEnroll 1 1)) (request_of POST (Some pupil)) 1
       example_world
     = (Inl ReceiverError,
        snd (enroll (\<lambda>s. s = SignalSend (CourseEnroll 1 1)) (request_of POST (Some pupil)) 1
               example_world))"
    by (simp only: fail snd_conv)
  have rollback: "\<forall>e w'. enroll (\<lambda>s. s = SignalSend (CourseEnroll 1 1))
                    (request_of POST (Some pupil)) 1 example_world = (Inl e, w')
                  \<longrightarrow> db w' = db example_world"
    using enroll_creates_tracking_rows [OF keys] by (rule conjunct1)
  have "db (snd (enroll (\<lambda>s. s = SignalSend (CourseEnroll 1 1)) (request_of POST (Some pupil)) 1
                example_world)) = db example_world"
    by (rule rollback [rule_format, OF raised])
  with keys run fail show ?thesis by (intro conjI)
qed

section \<open>Login, pagination and the default group: properties\<close>

text \<open>
  C7. For a valid login form, when the request's \<open>is_remember\<close> field is \<open>on\<close> the view
  stores the timestamp in the session under \<open>REMEMBER_KEY\<close> and sets the session expiry
  to \<open>REMEMBER_AGE\<close>; when the field is \<open>off\<close> it sets the expiry to 0 (the session ends
  with the browser). Both mark the session as modified. The session so prepared is what
  the framework's login receives; the login is reached unless the receiver of the
  \<open>account_access\<close> signal raises, and then the view raises.
\<close>

theorem login_remember_me:
  "(r_POST req ''is_remember'' = Some ''on'' \<longrightarrow>
      UserLoginView_form_valid fails auth_login conf now req =
        (if fails (SignalSend AccountAccess) then Inl ReceiverError
         else Inr (auth_login
                ((r_session req)\<lparr>s_data := (s_data (r_session req))(REMEMBER_KEY conf \<mapsto> SStr now),
                                s_expiry := Some (REMEMBER_AGE conf),
                                s_modified := True\<rparr>)
                [AccountAccess])))
   \<and> (r_POST req ''is_remember'' = Some ''off'' \<longrightarrow>
      UserLoginView_form_valid fails auth_login conf now req =
        (if fails (SignalSend AccountAccess) then Inl ReceiverError
         else Inr (auth_login ((r_session req)\<lparr>s_expiry := Some 0, s_modified := True\<rparr>)
                [AccountAccess])))"
  by (simp add: UserLoginView_form_valid_def remember_session_def)

theorem login_remember_me_witness:
  "UserLoginView_form_valid no_failure Pair example_settings ''2024-05-01T10:00:00''
       ((request_of POST None)\<lparr>r_POST := [''is_remember'' \<mapsto> ''on'']\<rparr>)
     = Inr (\<lparr>s_data = [''remember'' \<mapsto> SStr ''2024-05-01T10:00:00''],
             s_expiry = Some 2592000, s_modified = True\<rparr>, [AccountAccess])
   \<and> UserLoginView_form_valid no_failure Pair example_settings ''2024-05-01T10:00:00''
       ((request_of POST None)\<lparr>r_POST := [''is_remember'' \<mapsto> ''off'']\<rparr>)
     = Inr (\<lparr>s_data = Map.empty, s_expiry = Some 0, s_modified = True\<rparr>, [AccountAccess])"
proof -
  have on: "r_POST ((request_of POST None)\<lparr>r_POST := [''is_remember'' \<mapsto> ''on'']\<rparr>) ''is_remember''
            = Some ''on''"
    and off: "r_POST ((request_of POST None)\<lparr>r_POST := [''is_remember'' \<mapsto> ''off'']\<rparr>) ''is_remember''
            = Some ''off''"
    by simp_all
  note a = login_remember_me [THEN conjunct1, rule_format, OF on,
             of no_failure Pair example_settings "''2024-05-01T10:00:00''"]
  note b = login_remember_me [THEN conjunct2, rule_format, OF off,
             of no_failure Pair example_settings "''2024-05-01T10:00:00''"]
  show ?thesis
    unfolding a b
    by (simp add: request_of_def empty_session_def example_settings_def no_failure_def)
qed



lemma groups_of_groups_set:
  "groups_of uid (a\<lparr>user_groups := groups_set uid gids (user_groups a)\<rparr>) = set gids"
  by (auto simp: groups_of_def groups_set_def image_iff)

lemma groups_of_groups_set_other:
  "v \<noteq> uid \<Longrightarrow> groups_of v (a\<lparr>user_groups := groups_set uid gids (user_groups a)\<rparr>) = groups_of v a"
  by (auto simp: groups_of_def groups_set_def image_iff)

text \<open>
  C6. For a newly created user (\<open>created\<close> true) the receiver sets the user's groups to
  exactly the groups with the default name, and leaves the other users' groups and the
  group table alone; for a save of an existing user (\<open>created\<close> false) it changes
  nothing.
\<close>

theorem grant_pupil_rights_default_group:
  "groups_of instance (grant_pupil_rights instance True a)
     = g_id ` {g \<in> set (groups a). g_name g = pupil_group_name}
   \<and> (\<forall>v. v \<noteq> instance \<longrightarrow>
          groups_of v (grant_pupil_rights instance True a) = groups_of v a)
   \<and> groups (grant_pupil_rights instance True a) = groups a
   \<and> grant_pupil_rights instance False a = a"
  by (simp add: grant_pupil_rights_def groups_of_groups_set groups_of_groups_set_other)

theorem grant_pupil_rights_default_group_witness:
  "groups_of 9 (grant_pupil_rights 9 True example_auth) = {1}
   \<and> groups_of 5 (grant_pupil_rights 5 True example_auth) = {1}
   \<and> groups_of 5 (grant_pupil_rights 9 True example_auth) = {2}
   \<and> groups_of 5 (grant_pupil_rights 5 False example_auth) = {2}"
proof -
  note inst9 = grant_pupil_rights_default_group [of 9 example_auth]
  note inst5 = grant_pupil_rights_default_group [of 5 example_auth]
  have named: "g_id ` {g \<in> set (groups example_auth). g_name g = pupil_group_name} = {1}"
  proof -
    have "g_id ` {g \<in> set (groups example_auth). g_name g = pupil_group_name}
          = set (map g_id (filter (\<lambda>g. g_name g = pupil_group_name) (groups example_auth)))"
      by simp
    also have "\<dots> = {1}"
      by (simp add: example_auth_def pupil_group_name_def)
    finally show ?thesis .
  qed
  have before: "groups_of 5 example_auth = {2}"
    by (simp add: groups_of_def example_auth_def)
  have a: "groups_of 9 (grant_pupil_rights 9 True example_auth) = {1}"
    using inst9 named by simp
  have b: "groups_of 5 (grant_pupil_rights 5 True example_auth) = {1}"
    using inst5 named by simp
  have c: "groups_of 5 (grant_pupil_rights 9 True example_auth) = {2}"
    using inst9 before by simp
  have d: "groups_of 5 (grant_pupil_rights 5 False example_auth) = {2}"
    using inst5 before by simp
  from a b c d show ?thesis by blast
qed


section \<open>Course views: properties\<close>

lemma CourseCreateView_form_valid_cases:
  "CourseCreateView_form_valid fails new_id form req w =
     (if fails CourseSave then (Inl DatabaseError, w)
      else case r_user req of
             None \<Rightarrow> (Inl TypeError, w)
           | Some u \<Rightarrow>
               if fails AuthorsAdd then (Inl DatabaseError, w)
               else (Inr (HttpResponseRedirect (CreateLesson new_id)),
                     w\<lparr>db := (db w)\<lparr>courses := courses (db w) @ [course_of_form new_id form],
                                    course_authors :=
                                       authors_add new_id (u_id u) (course_authors (db w))\<rparr>,
                       cache := (cache w)(KCourses := None)\<rparr>))"
  by (simp add: CourseCreateView_form_valid_def atomic_def Let_def course_of_form_def
      split: option.splits)

text \<open>
  C10. A successful course creation redirects to the lesson form of the new course,
  whatever key \<open>new_id\<close> the database gives it; the new course is the one row added to the
  course table, and the requesting user is linked to it as an author (the only link
  added). The save and the author link are one transaction: whenever the view raises, the
  database is as it was, so a course is never left without its author.
\<close>

theorem course_create_adds_author:
  "(\<forall>e w'. CourseCreateView_form_valid fails new_id form req w = (Inl e, w') \<longrightarrow> db w' = db w)
   \<and> (\<forall>r w'. CourseCreateView_form_valid fails new_id form req w = (Inr r, w') \<longrightarrow>
         (\<exists>u. r_user req = Some u
            \<and> r = HttpResponseRedirect (CreateLesson new_id)
            \<and> courses (db w') = courses (db w) @ [course_of_form new_id form]
            \<and> c_id (last (courses (db w'))) = new_id
            \<and> (new_id, u_id u) \<in> set (course_authors (db w'))
            \<and> set (course_authors (db w'))
                = insert (new_id, u_id u) (set (course_authors (db w)))))"
proof (intro conjI allI impI)
  fix e w' assume "CourseCreateView_form_valid fails new_id form req w = (Inl e, w')"
  then show "db w' = db w"
    unfolding CourseCreateView_form_valid_def by (rule atomic_rollback)
next
  fix r w' assume ok: "CourseCreateView_form_valid fails new_id form req w = (Inr r, w')"
  then obtain u where u: "r_user req = Some u"
    unfolding CourseCreateView_form_valid_cases by (cases "r_user req") (auto split: if_splits)
  from ok u have r: "r = HttpResponseRedirect (CreateLesson new_id)"
    and w': "w' = w\<lparr>db := (db w)\<lparr>courses := courses (db w) @ [course_of_form new_id form],
                                    course_authors :=
                                       authors_add new_id (u_id u) (course_authors (db w))\<rparr>,
                       cache := (cache w)(KCourses := None)\<rparr>"
    unfolding CourseCreateView_form_valid_cases by (auto split: if_splits)
  show "\<exists>u. r_user req = Some u
            \<and> r = HttpResponseRedirect (CreateLesson new_id)
            \<and> courses (db w') = courses (db w) @ [course_of_form new_id form]
            \<and> c_id (last (courses (db w'))) = new_id
            \<and> (new_id, u_id u) \<in> set (course_authors (db w'))
            \<and> set (course_authors (db w'))
                = insert (new_id, u_id u) (set (course_authors (db w)))"
    using u r by (auto simp: w' authors_add_def course_of_form_def)
qed

lemma course_create_invalidates_cache:
  "CourseCreateView_form_valid fails new_id form req w = (Inr r, w') \<Longrightarrow> cache w' KCourses = None"
  unfolding CourseCreateView_form_valid_cases
  by (auto split: if_splits option.splits)

lemma access_mixins_denied:
  "\<not> has_perm req perm \<Longrightarrow>
     access_mixins perm view req w =
       (case r_user req of None \<Rightarrow> (Inr (HttpResponseRedirect LoginPage), w)
                         | Some u \<Rightarrow> (Inl PermissionDenied, w))"
  by (simp add: access_mixins_def split: option.splits)

lemma access_mixins_granted:
  "has_perm req perm \<Longrightarrow> access_mixins perm view req w = view req w"
  by (auto simp: access_mixins_def has_perm_def split: option.splits)

lemma course_delete_invalidates_cache:
  "CourseDeleteView_post fails on_delete course_id req w = (Inr (HttpResponseRedirect Index), w')
   \<Longrightarrow> cache w' KCourses = None \<and> cache w' (KCourseLessons course_id) = None"
  by (auto simp: CourseDeleteView_post_def access_mixins_def Let_def
      split: option.splits if_splits sum.splits)

text \<open>
  The only guard of the update view is the permission: a request without
  \<open>learning.change_course\<close> changes nothing.
\<close>

lemma course_update_permission_gate:
  assumes "\<not> has_perm req ''learning.change_course''"
  shows "snd (CourseUpdateView_post fails course_id form req w) = w"
  using assms
  by (auto simp: CourseUpdateView_post_def access_mixins_denied split: option.splits)

text \<open>
  The answer of the update view does not depend on the authors relation, although the
  relation is written at creation (line 92) and the lesson form offers a user only the
  courses that user is an author of (\<open>LessonCreateView.get_form\<close>, line 151).
\<close>

lemma course_update_ignores_authors:
  "fst (CourseUpdateView_post fails course_id form req
          (w\<lparr>db := (db w)\<lparr>course_authors := links\<rparr>\<rparr>))
   = fst (CourseUpdateView_post fails course_id form req w)"
  by (auto simp: CourseUpdateView_post_def access_mixins_def get_object_def
      split: option.splits list.splits)

lemmas course_view_defs =
  CourseUpdateView_post_def CourseCreateView_form_valid_def access_mixins_def has_perm_def
  get_object_def update_course_def course_of_form_def authors_add_def
  atomic_def MainView_get_queryset_def

text \<open>
  The first author creates a course, to which the database gives the key 4 (key 3 was
  used by a course since deleted), and becomes its author; when the author link raises,
  the course row is rolled back.
\<close>

theorem course_create_adds_author_witness:
  "CourseCreateView_form_valid no_failure 4 new_title (request_of POST (Some first_author))
       example_world
     = (Inr (HttpResponseRedirect (CreateLesson 4)),
        example_world\<lparr>db := example_db\<lparr>courses := example_courses @
                             [\<lparr>c_id = 4, c_title = ''Python 3'', c_description = ''Basics'',
                               c_start_date = ''2024-01-10''\<rparr>],
                           course_authors := [(1, 5), (2, 6), (4, 5)]\<rparr>\<rparr>)
   \<and> CourseCreateView_form_valid (\<lambda>s. s = AuthorsAdd) 4 new_title
        (request_of POST (Some first_author)) example_world
     = (Inl DatabaseError, example_world)
   \<and> db (snd (CourseCreateView_form_valid (\<lambda>s. s = AuthorsAdd) 4 new_title
                (request_of POST (Some first_author)) example_world)) = db example_world"
proof -
  have run: "CourseCreateView_form_valid no_failure 4 new_title (request_of POST (Some first_author))
       example_world
     = (Inr (HttpResponseRedirect (CreateLesson 4)),
        example_world\<lparr>db := example_db\<lparr>courses := example_courses @
                             [\<lparr>c_id = 4, c_title = ''Python 3'', c_description = ''Basics'',
                               c_start_date = ''2024-01-10''\<rparr>],
                           course_authors := [(1, 5), (2, 6), (4, 5)]\<rparr>\<rparr>)"
    by (simp add: course_view_defs example_defs)
  have fail: "CourseCreateView_form_valid (\<lambda>s. s = AuthorsAdd) 4 new_title
        (request_of POST (Some first_author)) example_world
     = (Inl DatabaseError, example_world)"
    by (simp add: course_view_defs example_defs)
  have raised: "CourseCreateView_form_valid (\<lambda>s. s = AuthorsAdd) 4 new_title
        (request_of POST (Some first_author)) example_world
     = (Inl DatabaseError,
        snd (CourseCreateView_form_valid (\<lambda>s. s = AuthorsAdd) 4 new_title
               (request_of POST (Some first_author)) example_world))"
    by (simp only: fail snd_conv)
  have rollback: "\<forall>e w'. CourseCreateView_form_valid (\<lambda>s. s = AuthorsAdd) 4 new_title
                    (request_of POST (Some first_author)) example_world = (Inl e, w')
                  \<longrightarrow> db w' = db example_world"
    using course_create_adds_author by (rule conjunct1)
  have "db (snd (CourseCreateView_form_valid (\<lambda>s. s = AuthorsAdd) 4 new_title
                (request_of POST (Some first_author)) example_world)) = db example_world"
    by (rule rollback [rule_format, OF raised])
  with run fail show ?thesis by (intro conjI)
qed

text \<open>
  C4. Only a course's listed authors may edit it; the update view does not hold to that.
  User 6 is not an author of course 1 (its only author is user 5) but holds
  \<open>learning.change_course\<close>, and the update view changes the title of course 1: the view
  looks the course up by its id alone and never reads the authors relation.
\<close>

theorem course_update_by_non_author:
  "(1, 6) \<notin> set (course_authors (db example_world))
   \<and> r_user (request_of POST (Some second_author)) = Some second_author
   \<and> u_id second_author = 6
   \<and> CourseUpdateView_post no_failure 1 (Some new_title) (request_of POST (Some second_author))
        example_world
     = (Inr (HttpResponseRedirect (Detail 1)),
        example_world\<lparr>db := example_db\<lparr>courses :=
           [\<lparr>c_id = 1, c_title = ''Python 3'', c_description = ''Basics'',
             c_start_date = ''2024-01-10''\<rparr>,
            \<lparr>c_id = 2, c_title = ''SQL'', c_description = ''Queries'',
             c_start_date = ''2024-02-01''\<rparr>]\<rparr>\<rparr>)
   \<and> courses (db (snd (CourseUpdateView_post no_failure 1 (Some new_title)
                         (request_of POST (Some second_author)) example_world)))
       \<noteq> courses (db example_world)"
  by (simp add: course_view_defs example_defs)

text \<open>
  C5. Creation and deletion delete the cache key \<open>courses\<close> (the two lemmas
  \<open>course_create_invalidates_cache\<close> and \<open>course_delete_invalidates_cache\<close> above), but
  the update view does not: with the course list cached, a successful update of course 1
  by its author leaves the key \<open>courses\<close> in the cache with the old list, and the index
  page still reads the old list although the course table has changed.
\<close>

theorem course_update_keeps_cached_courses:
  "cache cached_world KCourses = Some (CachedCourses example_courses)
   \<and> CourseUpdateView_post no_failure 1 (Some new_title) (request_of POST (Some first_author))
        cached_world
     = (Inr (HttpResponseRedirect (Detail 1)),
        cached_world\<lparr>db := example_db\<lparr>courses :=
           [\<lparr>c_id = 1, c_title = ''Python 3'', c_description = ''Basics'',
             c_start_date = ''2024-01-10''\<rparr>,
            \<lparr>c_id = 2, c_title = ''SQL'', c_description = ''Queries'',
             c_start_date = ''2024-02-01''\<rparr>]\<rparr>\<rparr>)
   \<and> cache (snd (CourseUpdateView_post no_failure 1 (Some new_title)
                    (request_of POST (Some first_author)) cached_world)) KCourses
       = Some (CachedCourses example_courses)
   \<and> fst (MainView_get_queryset
            (snd (CourseUpdateView_post no_failure 1 (Some new_title)
                    (request_of POST (Some first_author)) cached_world)))
       = CachedCourses example_courses
   \<and> CachedCourses (courses (db (snd (CourseUpdateView_post no_failure 1 (Some new_title)
                    (request_of POST (Some first_author)) cached_world))))
       \<noteq> CachedCourses example_courses"
  by (simp add: course_view_defs example_defs)

end
